theory Spec2Isabelle
  imports Main
begin

section \<open>The relational data the resolvers read\<close>

text \<open>
  Modelled from the spec: the models Node, Platform, Protocol and Stat that the resolvers
  of \<^verbatim>\<open>thefederation/schema.py\<close> query (the models module is not among the sources; section 3
  of the spec gives the data model). A row is a record, a table is the list of its rows, a
  foreign key is the referenced primary key (\<open>None\<close> for SQL NULL), and the many-to-many
  relation between nodes and protocols is the set of protocol keys a node is linked to,
  held as a list that is only ever tested for membership (the relation's table has one
  row per linked pair).

  A calendar date is its proleptic Gregorian ordinal (Python's \<^verbatim>\<open>date.toordinal()\<close>), so
  that the order of dates is the order of the integers: 2024-01-01 is 738886.
  Strings are ASCII text. Every usage metric of a stat row may be NULL.
\<close>

type_synonym day = int

record platform =
  platform_id :: nat
  platform_name :: string

record protocol =
  protocol_id :: nat
  protocol_name :: string

record node =
  node_id :: nat
  host :: string
  active :: bool
  node_platform :: "nat option"
  node_protocols :: "nat list"

record stat =
  stat_id :: nat
  date :: day
  stat_node :: "nat option"
  stat_platform :: "nat option"
  stat_protocol :: "nat option"
  users_total :: "int option"
  users_half_year :: "int option"
  users_monthly :: "int option"
  users_weekly :: "int option"
  local_posts :: "int option"
  local_comments :: "int option"

record database =
  Node_objects :: "node list"
  Platform_objects :: "platform list"
  Protocol_objects :: "protocol list"
  Stat_objects :: "stat list"

text \<open>
  What a resolver can raise: the \<^verbatim>\<open>ValueError\<close> of the source with its message, and the
  database's error for a scalar subquery that yields more than one row (the SQL
  standard's cardinality violation, which PostgreSQL raises when the query runs).
\<close>

datatype error = ValueError string | CardinalityViolation

section \<open>Python and ORM primitives\<close>

text \<open>
  \<^verbatim>\<open>kwargs.get(k)\<close> is \<open>None\<close> for an absent argument and the string otherwise; in a
  condition it counts as true when it is a non-empty string. \<open>the\<close> is applied to an
  argument only under that test.
\<close>

fun truthy :: "string option \<Rightarrow> bool" where
  "truthy None = False"
| "truthy (Some s) = (s \<noteq> [])"

text \<open>\<^verbatim>\<open>str.lower()\<close> on ASCII text: the letters A to Z move to a to z.\<close>

definition lower_char :: "char \<Rightarrow> char" where
  "lower_char c =
     (let k = (of_char c :: nat) in if 65 \<le> k \<and> k \<le> 90 then char_of (k + 32) else c)"

definition lower :: "string \<Rightarrow> string" where
  "lower s = map lower_char s"

text \<open>
  Modelled from the spec: \<^verbatim>\<open>Node.objects.active()\<close> and \<^verbatim>\<open>qs.active()\<close>, the manager method of
  the models module that is not among the sources. It keeps the nodes whose active flag
  is set.
\<close>

definition active_qs :: "node list \<Rightarrow> node list" where
  "active_qs qs = filter active qs"

text \<open>
  Filters through a relation are inner joins: a row is kept once for every related row
  that satisfies the condition, and a row whose reference is NULL or dangling is dropped.
\<close>

definition filter_platform__name :: "database \<Rightarrow> string \<Rightarrow> node list \<Rightarrow> node list" where
  "filter_platform__name db v qs =
     [n. n \<leftarrow> qs, p \<leftarrow> Platform_objects db,
         node_platform n = Some (platform_id p), platform_name p = v]"

definition filter_protocols__name :: "database \<Rightarrow> string \<Rightarrow> node list \<Rightarrow> node list" where
  "filter_protocols__name db v qs =
     [n. n \<leftarrow> qs, p \<leftarrow> Protocol_objects db,
         protocol_id p \<in> set (node_protocols n), protocol_name p = v]"

definition filter_node__platform__name :: "database \<Rightarrow> string \<Rightarrow> stat list \<Rightarrow> stat list" where
  "filter_node__platform__name db v qs =
     [s. s \<leftarrow> qs, n \<leftarrow> filter_platform__name db v (Node_objects db),
         stat_node s = Some (node_id n)]"

definition filter_node__protocols__name :: "database \<Rightarrow> string \<Rightarrow> stat list \<Rightarrow> stat list" where
  "filter_node__protocols__name db v qs =
     [s. s \<leftarrow> qs, n \<leftarrow> filter_protocols__name db v (Node_objects db),
         stat_node s = Some (node_id n)]"

definition filter_node__host :: "database \<Rightarrow> string \<Rightarrow> stat list \<Rightarrow> stat list" where
  "filter_node__host db v qs =
     [s. s \<leftarrow> qs, n \<leftarrow> Node_objects db, stat_node s = Some (node_id n), host n = v]"

definition filter_platform_name_stat :: "database \<Rightarrow> string \<Rightarrow> stat list \<Rightarrow> stat list" where
  "filter_platform_name_stat db v qs =
     [s. s \<leftarrow> qs, p \<leftarrow> Platform_objects db,
         stat_platform s = Some (platform_id p), platform_name p = v]"

definition filter_protocol_name_stat :: "database \<Rightarrow> string \<Rightarrow> stat list \<Rightarrow> stat list" where
  "filter_protocol_name_stat db v qs =
     [s. s \<leftarrow> qs, p \<leftarrow> Protocol_objects db,
         stat_protocol s = Some (protocol_id p), protocol_name p = v]"

text \<open>SQL aggregates skip NULL and are NULL when no value is left.\<close>

definition non_null :: "'a option list \<Rightarrow> 'a list" where
  "non_null xs = [v. Some v \<leftarrow> xs]"

definition sql_sum :: "int option list \<Rightarrow> int option" where
  "sql_sum xs = (case non_null xs of [] \<Rightarrow> None | v # vs \<Rightarrow> Some (sum_list (v # vs)))"

definition sql_max :: "int option list \<Rightarrow> int option" where
  "sql_max xs = (case non_null xs of [] \<Rightarrow> None | v # vs \<Rightarrow> Some (fold max vs v))"

text \<open>
  \<^verbatim>\<open>Avg\<close> is kept as the sum and the number of the values it averages; its decimal value
  is computed by the database.
\<close>

definition sql_avg :: "int option list \<Rightarrow> (int \<times> nat) option" where
  "sql_avg xs =
     (case non_null xs of [] \<Rightarrow> None | v # vs \<Rightarrow> Some (sum_list (v # vs), length (v # vs)))"

text \<open>
  \<^verbatim>\<open>values(k).annotate(...)\<close> groups the rows by \<open>k\<close>: one group for each distinct value.
\<close>

definition group_by :: "('r \<Rightarrow> 'k) \<Rightarrow> 'r list \<Rightarrow> ('k \<times> 'r list) list" where
  "group_by k rs = map (\<lambda>g. (g, filter (\<lambda>r. k r = g) rs)) (remdups (map k rs))"

text \<open>
  \<^verbatim>\<open>qs.values('date').annotate(count=agg).values('date', 'count').order_by('date')\<close>:
  one row for each date, ascending.
\<close>

definition date_counts :: "(stat list \<Rightarrow> 'c) \<Rightarrow> stat list \<Rightarrow> (day \<times> 'c) list" where
  "date_counts agg qs = sort_key fst (map (\<lambda>(d, rows). (d, agg rows)) (group_by date qs))"

text \<open>
  \<^verbatim>\<open>Subquery\<close> as a column: NULL for no row, the value for one row, the database's error
  for more.
\<close>

fun scalar_subquery :: "'a option list \<Rightarrow> error + 'a option" where
  "scalar_subquery [] = Inr None"
| "scalar_subquery [v] = Inr v"
| "scalar_subquery (v # w # vs) = Inl CardinalityViolation"

text \<open>\<^verbatim>\<open>annotate\<close> with a subquery column: the first error of a row is the query's.\<close>

fun annotate :: "('r \<Rightarrow> error + 'c) \<Rightarrow> 'r list \<Rightarrow> error + ('r \<times> 'c) list" where
  "annotate f [] = Inr []"
| "annotate f (r # rs) =
     (case f r of
        Inl e \<Rightarrow> Inl e
      | Inr c \<Rightarrow> (case annotate f rs of Inl e \<Rightarrow> Inl e | Inr cs \<Rightarrow> Inr ((r, c) # cs)))"

text \<open>
  \<^verbatim>\<open>order_by(F(k).desc(nulls_last=True))\<close> and \<^verbatim>\<open>order_by('-k')\<close>. SQL leaves the order of
  rows with equal keys open; the model keeps them in table order. Without
  \<^verbatim>\<open>nulls_last\<close>, PostgreSQL puts NULL first in a descending order.
\<close>

definition order_by_desc_nulls_last :: "('r \<Rightarrow> int option) \<Rightarrow> 'r list \<Rightarrow> 'r list" where
  "order_by_desc_nulls_last k rs =
     sort_key (\<lambda>r. - the (k r)) (filter (\<lambda>r. k r \<noteq> None) rs) @ filter (\<lambda>r. k r = None) rs"

definition order_by_desc :: "('r \<Rightarrow> int option) \<Rightarrow> 'r list \<Rightarrow> 'r list" where
  "order_by_desc k rs =
     filter (\<lambda>r. k r = None) rs @ sort_key (\<lambda>r. - the (k r)) (filter (\<lambda>r. k r \<noteq> None) rs)"

text \<open>\<^verbatim>\<open>filter(active_nodes__gt=0)\<close>: a comparison with NULL is not true.\<close>

definition filter_gt :: "('r \<Rightarrow> int option) \<Rightarrow> int \<Rightarrow> 'r list \<Rightarrow> 'r list" where
  "filter_gt k b rs = filter (\<lambda>r. case k r of None \<Rightarrow> False | Some c \<Rightarrow> b < c) rs"

text \<open>
  \<^verbatim>\<open>first()\<close> on a queryset without an order: the row with the least primary key, or
  \<open>None\<close>.
\<close>

definition first :: "stat list \<Rightarrow> stat option" where
  "first qs = (case sort_key stat_id qs of [] \<Rightarrow> None | s # _ \<Rightarrow> Some s)"

section \<open>The resolvers\<close>

text \<open>
  Each resolver takes the database, the optional arguments of its \<^verbatim>\<open>kwargs\<close> and, where the
  source reads \<^verbatim>\<open>now().date()\<close>, today's date. The \<^verbatim>\<open>stat\<close> argument of the shared helper
  names a metric column; here it is the column's selector. The helper is written in its
  two steps: the queryset \<^verbatim>\<open>qs\<close> that the scope selects (or the error), and the grouping of
  that queryset by date.
\<close>

text \<open>The message of the \<^verbatim>\<open>ValueError\<close> that the three validating resolvers raise.\<close>

definition itemType_message :: string where
  \<open>itemType_message = ''itemType should be "platform", "node" or "protocol''\<close>

definition get_stat_date_counts_qs ::
  "database \<Rightarrow> string option \<Rightarrow> string option \<Rightarrow> error + stat list" where
  "get_stat_date_counts_qs db value item_type =
     (if truthy value \<and> truthy item_type then
        (if item_type = Some ''platform'' then
           Inr (filter_node__platform__name db (the value) (Stat_objects db))
         else if item_type = Some ''protocol'' then
           Inr (filter_node__protocols__name db (the value) (Stat_objects db))
         else if item_type = Some ''node'' then
           Inr (filter_node__host db (the value) (Stat_objects db))
         else Inl (ValueError itemType_message))
      else Inr (filter (\<lambda>s. stat_node s \<noteq> None) (Stat_objects db)))"

definition get_stat_date_counts ::
  "database \<Rightarrow> (stat \<Rightarrow> int option) \<Rightarrow> string option \<Rightarrow> string option
     \<Rightarrow> error + (day \<times> int option) list" where
  "get_stat_date_counts db stat_col value item_type =
     (case get_stat_date_counts_qs db value item_type of
        Inl e \<Rightarrow> Inl e
      | Inr qs \<Rightarrow> Inr (date_counts (\<lambda>rows. sql_sum (map stat_col rows)) qs))"

text \<open>
  The subquery \<^verbatim>\<open>stat\<close> of \<^verbatim>\<open>resolve_nodes\<close>, for the node that \<^verbatim>\<open>OuterRef('pk')\<close> stands for:
  today's stat rows of the node, grouped by \<^verbatim>\<open>users_monthly\<close>, with the maximum of each group.
\<close>

definition resolve_nodes_stat :: "database \<Rightarrow> day \<Rightarrow> node \<Rightarrow> int option list" where
  "resolve_nodes_stat db today n =
     map (\<lambda>(g, rows). sql_max (map users_monthly rows))
       (group_by users_monthly
          (filter (\<lambda>s. stat_node s = Some (node_id n) \<and> date s = today) (Stat_objects db)))"

text \<open>The queryset \<^verbatim>\<open>qs\<close> of \<^verbatim>\<open>resolve_nodes\<close> after the platform, protocol and host filters.\<close>

definition resolve_nodes_qs ::
  "database \<Rightarrow> string option \<Rightarrow> string option \<Rightarrow> string option \<Rightarrow> node list" where
  "resolve_nodes_qs db platform_arg protocol_arg host_arg =
     (let qs = (if truthy platform_arg then
                  filter_platform__name db (the platform_arg) (active_qs (Node_objects db))
                else if truthy protocol_arg then
                  filter_protocols__name db (the protocol_arg) (active_qs (Node_objects db))
                else active_qs (Node_objects db))
      in if truthy host_arg then filter (\<lambda>n. host n = the host_arg) qs else qs)"

definition resolve_nodes ::
  "database \<Rightarrow> day \<Rightarrow> string option \<Rightarrow> string option \<Rightarrow> string option
     \<Rightarrow> error + (node \<times> int option) list" where
  "resolve_nodes db today platform_arg protocol_arg host_arg =
     (case annotate (\<lambda>n. scalar_subquery (resolve_nodes_stat db today n))
             (active_qs (resolve_nodes_qs db platform_arg protocol_arg host_arg)) of
        Inl e \<Rightarrow> Inl e
      | Inr rows \<Rightarrow> Inr (order_by_desc_nulls_last snd rows))"

text \<open>
  The subquery \<^verbatim>\<open>nodes\<close> of \<^verbatim>\<open>resolve_platforms\<close>, for the platform that \<^verbatim>\<open>OuterRef('pk')\<close> stands
  for: the active nodes of the platform, grouped by platform, with the number of rows of
  each group.
\<close>

definition resolve_platforms_nodes :: "database \<Rightarrow> platform \<Rightarrow> int option list" where
  "resolve_platforms_nodes db p =
     map (\<lambda>(g, rows). Some (int (length rows)))
       (group_by node_platform
          (filter (\<lambda>n. node_platform n = Some (platform_id p)) (active_qs (Node_objects db))))"

definition resolve_platforms ::
  "database \<Rightarrow> string option \<Rightarrow> error + (platform \<times> int option) list" where
  "resolve_platforms db name =
     (let qs = (if truthy name then
                  filter (\<lambda>p. platform_name p = lower (the name)) (Platform_objects db)
                else Platform_objects db)
      in case annotate (\<lambda>p. scalar_subquery (resolve_platforms_nodes db p)) qs of
           Inl e \<Rightarrow> Inl e
         | Inr rows \<Rightarrow> Inr (order_by_desc snd (filter_gt snd 0 rows)))"

text \<open>
  The subquery \<^verbatim>\<open>nodes\<close> of \<^verbatim>\<open>resolve_protocols\<close>: the active nodes joined with their protocol
  links, kept where the link is to the protocol of the outer row, grouped by the linked
  protocol, with the number of rows of each group.
\<close>

definition resolve_protocols_nodes :: "database \<Rightarrow> protocol \<Rightarrow> int option list" where
  "resolve_protocols_nodes db p =
     map (\<lambda>(g, rows). Some (int (length rows)))
       (group_by snd
          [(n, q). n \<leftarrow> active_qs (Node_objects db),
                   q \<leftarrow> remdups (node_protocols n), q = protocol_id p])"

definition resolve_protocols ::
  "database \<Rightarrow> string option \<Rightarrow> error + (protocol \<times> int option) list" where
  "resolve_protocols db name =
     (let qs = (if truthy name then
                  filter (\<lambda>p. protocol_name p = lower (the name)) (Protocol_objects db)
                else Protocol_objects db)
      in case annotate (\<lambda>p. scalar_subquery (resolve_protocols_nodes db p)) qs of
           Inl e \<Rightarrow> Inl e
         | Inr rows \<Rightarrow> Inr (order_by_desc snd (filter_gt snd 0 rows)))"

text \<open>
  The two \<^verbatim>\<open>..._today\<close> resolvers return either a queryset (\<^verbatim>\<open>Stat.objects.none()\<close>) or the
  object or \<open>None\<close> that \<^verbatim>\<open>first()\<close> gives.
\<close>

datatype stat_result = QuerySet "stat list" | Object "stat option"

definition resolve_stats_platform_today :: "database \<Rightarrow> day \<Rightarrow> string option \<Rightarrow> stat_result" where
  "resolve_stats_platform_today db today name =
     (if \<not> truthy name then QuerySet []
      else Object (first (filter_platform_name_stat db (the name)
             (filter (\<lambda>s. stat_node s = None \<and> stat_protocol s = None \<and> date s = today)
                (Stat_objects db)))))"

definition resolve_stats_protocol_today :: "database \<Rightarrow> day \<Rightarrow> string option \<Rightarrow> stat_result" where
  "resolve_stats_protocol_today db today name =
     (if \<not> truthy name then QuerySet []
      else Object (first (filter_protocol_name_stat db (the name)
             (filter (\<lambda>s. stat_node s = None \<and> stat_platform s = None \<and> date s = today)
                (Stat_objects db)))))"

text \<open>
  The ratio of the two sums is a floating-point division done by the database; the model
  returns its two operands, \<^verbatim>\<open>Sum('users_monthly')\<close> and \<^verbatim>\<open>Sum('users_total')\<close>.
\<close>

definition resolve_stats_users_active_ratio ::
  "database \<Rightarrow> string option \<Rightarrow> string option
     \<Rightarrow> error + (day \<times> int option \<times> int option) list" where
  "resolve_stats_users_active_ratio db value item_type =
     (case (if truthy value \<and> truthy item_type then
              (if item_type = Some ''platform'' then
                 Inr (filter_node__platform__name db (the value) (Stat_objects db))
               else if item_type = Some ''protocol'' then
                 Inr (filter_node__protocols__name db (the value) (Stat_objects db))
               else if item_type = Some ''node'' then
                 Inr (filter_node__host db (the value) (Stat_objects db))
               else Inl (ValueError itemType_message))
            else Inr (filter (\<lambda>s. stat_node s \<noteq> None) (Stat_objects db)))
      of Inl e \<Rightarrow> Inl e
       | Inr qs \<Rightarrow>
           Inr (date_counts
                  (\<lambda>rows. (sql_sum (map users_monthly rows), sql_sum (map users_total rows))) qs))"

definition resolve_stats_users_total ::
  "database \<Rightarrow> string option \<Rightarrow> string option \<Rightarrow> error + (day \<times> int option) list" where
  "resolve_stats_users_total db value item_type =
     get_stat_date_counts db users_total value item_type"

definition resolve_stats_users_half_year ::
  "database \<Rightarrow> string option \<Rightarrow> string option \<Rightarrow> error + (day \<times> int option) list" where
  "resolve_stats_users_half_year db value item_type =
     get_stat_date_counts db users_half_year value item_type"

definition resolve_stats_users_monthly ::
  "database \<Rightarrow> string option \<Rightarrow> string option \<Rightarrow> error + (day \<times> int option) list" where
  "resolve_stats_users_monthly db value item_type =
     get_stat_date_counts db users_monthly value item_type"

definition resolve_stats_users_per_node ::
  "database \<Rightarrow> string option \<Rightarrow> string option
     \<Rightarrow> error + (day \<times> (int \<times> nat) option) list" where
  "resolve_stats_users_per_node db value item_type =
     (case (if truthy value \<and> truthy item_type then
              (if item_type = Some ''platform'' then
                 Inr (filter_node__platform__name db (the value) (Stat_objects db))
               else if item_type = Some ''protocol'' then
                 Inr (filter_node__protocols__name db (the value) (Stat_objects db))
               else if item_type = Some ''node'' then
                 Inr (filter_node__host db (the value) (Stat_objects db))
               else Inl (ValueError itemType_message))
            else Inr (filter (\<lambda>s. stat_node s \<noteq> None) (Stat_objects db)))
      of Inl e \<Rightarrow> Inl e
       | Inr qs \<Rightarrow> Inr (date_counts (\<lambda>rows. sql_avg (map users_total rows)) qs))"

definition resolve_stats_users_weekly ::
  "database \<Rightarrow> string option \<Rightarrow> string option \<Rightarrow> error + (day \<times> int option) list" where
  "resolve_stats_users_weekly db value item_type =
     get_stat_date_counts db users_weekly value item_type"

definition resolve_stats_local_posts ::
  "database \<Rightarrow> string option \<Rightarrow> string option \<Rightarrow> error + (day \<times> int option) list" where
  "resolve_stats_local_posts db value item_type =
     get_stat_date_counts db local_posts value item_type"

definition resolve_stats_local_comments ::
  "database \<Rightarrow> string option \<Rightarrow> string option \<Rightarrow> error + (day \<times> int option) list" where
  "resolve_stats_local_comments db value item_type =
     get_stat_date_counts db local_comments value item_type"

section \<open>The settings of \<^verbatim>\<open>config/local.py\<close>\<close>

text \<open>
  Modelled from the spec: \<^verbatim>\<open>env.bool\<close>, the reader of the \<^verbatim>\<open>env\<close> object that the base settings
  define (they are not among the sources). A variable is unset (\<open>None\<close>) or set to a value
  that the reader takes as a boolean; an unset variable gives the default.
\<close>

definition env_bool :: "(string \<rightharpoonup> bool) \<Rightarrow> string \<Rightarrow> bool \<Rightarrow> bool" where
  "env_bool env var dflt = (case env var of None \<Rightarrow> dflt | Some b \<Rightarrow> b)"

text \<open>\<^verbatim>\<open>x in xs\<close> on a Python list: the elements are compared with \<open>x\<close> from the front.\<close>

fun py_in :: "'a \<Rightarrow> 'a list \<Rightarrow> bool" where
  "py_in x [] = False"
| "py_in x (y # ys) = (y = x \<or> py_in x ys)"

definition testing :: "(string \<rightharpoonup> bool) \<Rightarrow> string list \<Rightarrow> bool" where
  "testing env argv =
     (env_bool env ''CI'' False \<or> env_bool env ''TEST'' False \<or> py_in ''test'' argv)"

text \<open>
  \<^verbatim>\<open>REDIS_DB\<close> after the module has run, from the value the base settings left
  (\<open>None\<close> when they define none).
\<close>

definition REDIS_DB :: "(string \<rightharpoonup> bool) \<Rightarrow> string list \<Rightarrow> int option \<Rightarrow> int option" where
  "REDIS_DB env argv base = (if testing env argv then Some 15 else base)"

section \<open>Example data\<close>

text \<open>
  Small databases on which the resolvers are run. \<open>mk_stat\<close> builds a stat row from its
  key, date, the three scope references and the total and monthly user counts; the other
  metrics are NULL.
\<close>

definition mk_stat ::
  "nat \<Rightarrow> day \<Rightarrow> nat option \<Rightarrow> nat option \<Rightarrow> nat option \<Rightarrow> int option \<Rightarrow> int option \<Rightarrow> stat" where
  "mk_stat i d n pl pr t m =
     \<lparr>stat_id = i, date = d, stat_node = n, stat_platform = pl, stat_protocol = pr,
      users_total = t, users_half_year = None, users_monthly = m, users_weekly = None,
      local_posts = None, local_comments = None\<rparr>"

text \<open>
  Three active nodes and an inactive one, three platforms (one without nodes), three
  protocols (two whose names differ only in case, one without nodes), and stat rows of
  2024-01-02 and 2024-01-03 for the active nodes 1 and 2, with a platform, a protocol and
  a global row for 2024-01-03. Node 4 has no stat row.
\<close>

definition example_db :: database where
  "example_db =
     \<lparr>Node_objects =
        [\<lparr>node_id = 4, host = ''d.example'', active = True,
          node_platform = Some 2, node_protocols = [1]\<rparr>,
         \<lparr>node_id = 1, host = ''a.example'', active = True,
          node_platform = Some 1, node_protocols = [1]\<rparr>,
         \<lparr>node_id = 2, host = ''b.example'', active = True,
          node_platform = Some 2, node_protocols = [1, 2]\<rparr>,
         \<lparr>node_id = 3, host = ''c.example'', active = False,
          node_platform = Some 1, node_protocols = [2]\<rparr>],
      Platform_objects =
        [\<lparr>platform_id = 1, platform_name = ''diaspora''\<rparr>,
         \<lparr>platform_id = 2, platform_name = ''mastodon''\<rparr>,
         \<lparr>platform_id = 3, platform_name = ''friendica''\<rparr>],
      Protocol_objects =
        [\<lparr>protocol_id = 1, protocol_name = ''activitypub''\<rparr>,
         \<lparr>protocol_id = 2, protocol_name = ''ActivityPub''\<rparr>,
         \<lparr>protocol_id = 3, protocol_name = ''zot''\<rparr>],
      Stat_objects =
        [mk_stat 1 738888 (Some 1) None None (Some 10) (Some 5),
         mk_stat 2 738887 (Some 1) None None (Some 10) (Some 5),
         mk_stat 3 738888 (Some 2) None None (Some 100) (Some 50),
         mk_stat 4 738887 (Some 2) None None (Some 90) (Some 40),
         mk_stat 5 738888 None (Some 1) None (Some 10) (Some 5),
         mk_stat 6 738888 None None (Some 1) (Some 110) (Some 55),
         mk_stat 7 738888 None None None (Some 110) (Some 55)]\<rparr>"

text \<open>Two active nodes whose monthly user counts of today, 2024-01-03, are 5 and 50.\<close>

definition nodes_example_db :: database where
  "nodes_example_db =
     \<lparr>Node_objects =
        [\<lparr>node_id = 1, host = ''small.example'', active = True,
          node_platform = Some 1, node_protocols = [1]\<rparr>,
         \<lparr>node_id = 2, host = ''big.example'', active = True,
          node_platform = Some 1, node_protocols = [1]\<rparr>],
      Platform_objects = [\<lparr>platform_id = 1, platform_name = ''diaspora''\<rparr>],
      Protocol_objects = [\<lparr>protocol_id = 1, protocol_name = ''diaspora''\<rparr>],
      Stat_objects =
        [mk_stat 1 738888 (Some 1) None None (Some 20) (Some 5),
         mk_stat 2 738888 (Some 2) None None (Some 200) (Some 50)]\<rparr>"

text \<open>One node with a stat row for each of 2024-01-01, 01-02 and 01-03, ten users in each.\<close>

definition stats_example_db :: database where
  "stats_example_db =
     \<lparr>Node_objects =
        [\<lparr>node_id = 1, host = ''a.example'', active = True,
          node_platform = Some 1, node_protocols = [1]\<rparr>],
      Platform_objects = [\<lparr>platform_id = 1, platform_name = ''diaspora''\<rparr>],
      Protocol_objects = [\<lparr>protocol_id = 1, protocol_name = ''diaspora''\<rparr>],
      Stat_objects =
        [mk_stat 1 738887 (Some 1) None None (Some 10) (Some 4),
         mk_stat 2 738888 (Some 1) None None (Some 10) (Some 4),
         mk_stat 3 738886 (Some 1) None None (Some 10) (Some 4)]\<rparr>"

section \<open>Notions of the specification\<close>

text \<open>
  The six resolvers that sum a metric per date, each with the metric it names.
\<close>

definition stat_resolvers ::
  "((database \<Rightarrow> string option \<Rightarrow> string option \<Rightarrow> error + (day \<times> int option) list)
     \<times> (stat \<Rightarrow> int option)) list" where
  "stat_resolvers =
     [(resolve_stats_users_total, users_total),
      (resolve_stats_users_half_year, users_half_year),
      (resolve_stats_users_monthly, users_monthly),
      (resolve_stats_users_weekly, users_weekly),
      (resolve_stats_local_posts, local_posts),
      (resolve_stats_local_comments, local_comments)]"

text \<open>
  The values that the join of an item type reaches from a stat row: the name of its
  node's platform, the names of its node's protocols, or its node's host.
\<close>

definition joined_values :: "database \<Rightarrow> string \<Rightarrow> stat \<Rightarrow> string list" where
  "joined_values db t s =
     (if t = ''platform'' then
        [platform_name p. n \<leftarrow> Node_objects db, stat_node s = Some (node_id n),
                          p \<leftarrow> Platform_objects db, node_platform n = Some (platform_id p)]
      else if t = ''protocol'' then
        [protocol_name p. n \<leftarrow> Node_objects db, stat_node s = Some (node_id n),
                          p \<leftarrow> Protocol_objects db, protocol_id p \<in> set (node_protocols n)]
      else [host n. n \<leftarrow> Node_objects db, stat_node s = Some (node_id n)])"

text \<open>
  The order of the \<^verbatim>\<open>users\<close> column that the spec asks of \<^verbatim>\<open>nodes\<close>: \<open>users_ge u v\<close> holds
  when a row with \<open>u\<close> may stand before a row with \<open>v\<close>, that is \<open>v\<close> is NULL, or neither is
  and \<open>v \<le> u\<close>.
\<close>

definition users_ge :: "int option \<Rightarrow> int option \<Rightarrow> bool" where
  "users_ge u v = (case v of None \<Rightarrow> True | Some b \<Rightarrow> (case u of None \<Rightarrow> False | Some a \<Rightarrow> b \<le> a))"

text \<open>
  Today's stat rows of a named platform, and of a named protocol: the row is of today, its
  other two scope references are NULL, and the platform (protocol) it refers to has the
  name.
\<close>

definition platform_row_today :: "database \<Rightarrow> day \<Rightarrow> string \<Rightarrow> stat \<Rightarrow> bool" where
  "platform_row_today db today v s \<longleftrightarrow>
     s \<in> set (Stat_objects db) \<and> date s = today \<and> stat_node s = None \<and> stat_protocol s = None \<and>
     (\<exists>p \<in> set (Platform_objects db). stat_platform s = Some (platform_id p) \<and> platform_name p = v)"

definition protocol_row_today :: "database \<Rightarrow> day \<Rightarrow> string \<Rightarrow> stat \<Rightarrow> bool" where
  "protocol_row_today db today v s \<longleftrightarrow>
     s \<in> set (Stat_objects db) \<and> date s = today \<and> stat_node s = None \<and> stat_platform s = None \<and>
     (\<exists>p \<in> set (Protocol_objects db). stat_protocol s = Some (protocol_id p) \<and> protocol_name p = v)"

section \<open>Grouping by date\<close>

lemma set_group_by: "set (group_by k rs) = (\<lambda>g. (g, filter (\<lambda>r. k r = g) rs)) ` k ` set rs"
  by (simp add: group_by_def)

lemma in_date_counts:
  "(d, c) \<in> set (date_counts agg qs) \<longleftrightarrow>
     d \<in> date ` set qs \<and> c = agg (filter (\<lambda>s. date s = d) qs)"
  by (auto simp: date_counts_def set_group_by)

lemma sorted_date_counts: "sorted (map fst (date_counts agg qs))"
  unfolding date_counts_def by (rule sorted_sort_key)

lemma distinct_date_counts: "distinct (map fst (date_counts agg qs))"
proof -
  let ?xs = "map (\<lambda>(d, rows). (d, agg rows)) (group_by date qs)"
  have "map fst ?xs = remdups (map date qs)"
    by (simp add: group_by_def comp_def)
  then have "distinct (map fst ?xs)" by (simp only: distinct_remdups)
  then have "distinct ?xs \<and> inj_on fst (set ?xs)" by (rule distinct_map [THEN iffD1])
  then have "distinct (sort_key fst ?xs) \<and> inj_on fst (set (sort_key fst ?xs))"
    by (simp only: distinct_sort set_sort)
  then have "distinct (map fst (sort_key fst ?xs))" by (rule distinct_map [THEN iffD2])
  then show ?thesis unfolding date_counts_def .
qed

lemma dates_date_counts: "set (map fst (date_counts agg qs)) = date ` set qs"
proof -
  have "set (map fst (date_counts agg qs)) = fst ` set (date_counts agg qs)" by simp
  also have "set (date_counts agg qs) =
      (\<lambda>d. (d, agg (filter (\<lambda>s. date s = d) qs))) ` date ` set qs"
    by (simp add: date_counts_def group_by_def image_image)
  also have "fst ` \<dots> = date ` set qs"
    by (simp add: image_image)
  finally show ?thesis .
qed

section \<open>Scoping by item type and value\<close>

text \<open>
  C10. In the shared date-count helper, in \<^verbatim>\<open>stats_users_active_ratio\<close> and in
  \<^verbatim>\<open>stats_users_per_node\<close>, the scope is applied only when both \<^verbatim>\<open>value\<close> and \<^verbatim>\<open>itemType\<close>
  are given and non-empty. When either is absent or empty, whatever the other is (an
  unrecognised \<^verbatim>\<open>itemType\<close> without a value included), the resolver raises nothing and
  aggregates the stat rows whose node reference is not NULL.
\<close>

theorem unscoped_fallback:
  "\<not> (truthy value \<and> truthy item_type) \<Longrightarrow>
     get_stat_date_counts db m value item_type =
       Inr (date_counts (\<lambda>rows. sql_sum (map m rows))
              (filter (\<lambda>s. stat_node s \<noteq> None) (Stat_objects db))) \<and>
     resolve_stats_users_active_ratio db value item_type =
       Inr (date_counts (\<lambda>rows. (sql_sum (map users_monthly rows), sql_sum (map users_total rows)))
              (filter (\<lambda>s. stat_node s \<noteq> None) (Stat_objects db))) \<and>
     resolve_stats_users_per_node db value item_type =
       Inr (date_counts (\<lambda>rows. sql_avg (map users_total rows))
              (filter (\<lambda>s. stat_node s \<noteq> None) (Stat_objects db)))"
  by (cases "truthy value"; cases "truthy item_type";
      simp add: get_stat_date_counts_def get_stat_date_counts_qs_def
        resolve_stats_users_active_ratio_def resolve_stats_users_per_node_def)

theorem unscoped_fallback_witness:
  "get_stat_date_counts example_db users_total None (Some ''bogus'') =
     Inr [(738887, Some 100), (738888, Some 110)] \<and>
   resolve_stats_users_active_ratio example_db None (Some ''bogus'') =
     Inr [(738887, Some 45, Some 100), (738888, Some 55, Some 110)] \<and>
   resolve_stats_users_per_node example_db None (Some ''bogus'') =
     Inr [(738887, Some (100, 2)), (738888, Some (110, 2))]"
proof -
  have h: "\<not> (truthy None \<and> truthy (Some ''bogus''))" by simp
  have a: "date_counts (\<lambda>rows. sql_sum (map users_total rows))
             (filter (\<lambda>s. stat_node s \<noteq> None) (Stat_objects example_db)) =
           [(738887, Some 100), (738888, Some 110)]"
    by code_simp
  have b: "date_counts (\<lambda>rows. (sql_sum (map users_monthly rows), sql_sum (map users_total rows)))
             (filter (\<lambda>s. stat_node s \<noteq> None) (Stat_objects example_db)) =
           [(738887, Some 45, Some 100), (738888, Some 55, Some 110)]"
    by code_simp
  have c: "date_counts (\<lambda>rows. sql_avg (map users_total rows))
             (filter (\<lambda>s. stat_node s \<noteq> None) (Stat_objects example_db)) =
           [(738887, Some (100, 2)), (738888, Some (110, 2))]"
    by code_simp
  from unscoped_fallback [OF h, of example_db users_total] a b c show ?thesis
    by simp
qed

text \<open>
  C1, as the code has it. The three resolvers that validate \<^verbatim>\<open>itemType\<close> raise the
  \<^verbatim>\<open>ValueError\<close> when a non-empty \<^verbatim>\<open>value\<close> comes with a non-empty \<^verbatim>\<open>itemType\<close> that is none of
  "platform", "protocol" and "node". The validation sits under the test that both
  arguments are given.
\<close>

theorem invalid_item_type_raises:
  "truthy value \<Longrightarrow> truthy item_type \<Longrightarrow>
   item_type \<notin> {Some ''platform'', Some ''protocol'', Some ''node''} \<Longrightarrow>
     get_stat_date_counts db m value item_type = Inl (ValueError itemType_message) \<and>
     resolve_stats_users_active_ratio db value item_type = Inl (ValueError itemType_message) \<and>
     resolve_stats_users_per_node db value item_type = Inl (ValueError itemType_message)"
  by (simp add: get_stat_date_counts_def get_stat_date_counts_qs_def
        resolve_stats_users_active_ratio_def resolve_stats_users_per_node_def)

theorem invalid_item_type_raises_witness:
  "get_stat_date_counts example_db users_total (Some ''diaspora'') (Some ''service'') =
     Inl (ValueError itemType_message) \<and>
   resolve_stats_users_active_ratio example_db (Some ''diaspora'') (Some ''service'') =
     Inl (ValueError itemType_message) \<and>
   resolve_stats_users_per_node example_db (Some ''diaspora'') (Some ''service'') =
     Inl (ValueError itemType_message)"
  using invalid_item_type_raises [of "Some ''diaspora''" "Some ''service''" example_db users_total]
  by simp

text \<open>
  The claim as the spec states it, for every \<^verbatim>\<open>itemType\<close> outside the three, fails: with no
  \<^verbatim>\<open>value\<close>, the unrecognised \<^verbatim>\<open>itemType\<close> "service" raises nothing, and the three resolvers
  return the unscoped rows.
\<close>

theorem invalid_item_type_without_value_counterexample:
  "get_stat_date_counts example_db users_total None (Some ''service'') =
     Inr [(738887, Some 100), (738888, Some 110)] \<and>
   resolve_stats_users_active_ratio example_db None (Some ''service'') =
     Inr [(738887, Some 45, Some 100), (738888, Some 55, Some 110)] \<and>
   resolve_stats_users_per_node example_db None (Some ''service'') =
     Inr [(738887, Some (100, 2)), (738888, Some (110, 2))]"
  by code_simp

section \<open>Annotated and ordered rows\<close>

lemma annotate_Inr:
  "annotate f rs = Inr rows \<Longrightarrow> map fst rows = rs \<and> (\<forall>(r, c) \<in> set rows. f r = Inr c)"
  by (induction rs arbitrary: rows) (auto split: sum.splits)

lemma annotate_Inl: "annotate f rs = Inl e \<Longrightarrow> \<exists>r \<in> set rs. f r = Inl e"
  by (induction rs) (auto split: sum.splits)

lemma annotate_total:
  "(\<forall>r \<in> set rs. \<exists>c. f r = Inr c) \<Longrightarrow> \<exists>rows. annotate f rs = Inr rows"
  by (induction rs) (auto split: sum.splits)

lemma scalar_subquery_Inl:
  "scalar_subquery xs = Inl e \<Longrightarrow> e = CardinalityViolation \<and> 1 < length xs"
  by (cases xs rule: scalar_subquery.cases) auto

lemma set_order_by_desc_nulls_last: "set (order_by_desc_nulls_last k rs) = set rs"
  by (auto simp: order_by_desc_nulls_last_def)

lemma sorted_order_by_desc_nulls_last:
  "sorted_wrt (\<lambda>x y. users_ge (k x) (k y)) (order_by_desc_nulls_last k rs)"
proof -
  let ?A = "sort_key (\<lambda>r. - the (k r)) (filter (\<lambda>r. k r \<noteq> None) rs)"
  let ?B = "filter (\<lambda>r. k r = None) rs"
  have "sorted (map (\<lambda>r. - the (k r)) ?A)" by (rule sorted_sort_key)
  then have "sorted_wrt (\<lambda>x y. - the (k x) \<le> - the (k y)) ?A" by (simp only: sorted_map)
  moreover have "\<forall>x \<in> set ?A. k x \<noteq> None" by simp
  ultimately have A: "sorted_wrt (\<lambda>x y. users_ge (k x) (k y)) ?A"
    by (elim sorted_wrt_mono_rel [rotated]) (auto simp: users_ge_def)
  have "sorted_wrt (\<lambda>x y. True) ?B" by simp
  then have B: "sorted_wrt (\<lambda>x y. users_ge (k x) (k y)) ?B"
    by (rule sorted_wrt_mono_rel [rotated]) (simp add: users_ge_def)
  have C: "\<forall>x \<in> set ?A. \<forall>y \<in> set ?B. users_ge (k x) (k y)"
    by (simp add: users_ge_def)
  from A B C show ?thesis
    unfolding order_by_desc_nulls_last_def sorted_wrt_append by blast
qed

lemma remdups_single: "remdups xs = [g] \<Longrightarrow> set xs = {g}"
  by (metis set_remdups list.simps(15) empty_set)

lemma remdups_all_equal:
  assumes "\<forall>x \<in> set xs. \<forall>y \<in> set xs. x = y"
  shows "remdups xs = [] \<or> (\<exists>g. remdups xs = [g])"
proof (cases xs)
  case Nil
  then show ?thesis by simp
next
  case (Cons x ys)
  with assms have "set xs = {x}" by auto
  then have "length (remdups xs) = 1" by (simp add: length_remdups_card_conv)
  then show ?thesis by (cases "remdups xs") auto
qed

text \<open>
  When the subquery of \<^verbatim>\<open>resolve_nodes\<close> gives a value at all, the value is the maximum of
  today's monthly user counts of the node.
\<close>

lemma scalar_group_max:
  assumes "scalar_subquery (map (\<lambda>(g, rows). sql_max (map k rows)) (group_by k rs)) = Inr u"
  shows "u = sql_max (map k rs)"
proof (cases "remdups (map k rs)")
  case Nil
  then have "rs = []" by simp
  with assms show ?thesis by (simp add: group_by_def sql_max_def non_null_def)
next
  case (Cons g gs)
  show ?thesis
  proof (cases gs)
    case Nil
    with Cons have "remdups (map k rs) = [g]" by simp
    then have "set (map k rs) = {g}" by (rule remdups_single)
    then have "filter (\<lambda>r. k r = g) rs = rs" by (auto simp: filter_id_conv)
    with assms Cons Nil show ?thesis by (simp add: group_by_def)
  next
    case (Cons h hs)
    with \<open>remdups (map k rs) = g # gs\<close> assms show ?thesis by (simp add: group_by_def)
  qed
qed

section \<open>The nodes resolver\<close>

lemma set_filter_platform__name: "set (filter_platform__name db v qs) \<subseteq> set qs"
  by (auto simp: filter_platform__name_def)

lemma set_filter_protocols__name: "set (filter_protocols__name db v qs) \<subseteq> set qs"
  by (auto simp: filter_protocols__name_def)

lemma resolve_nodes_qs_active:
  "set (active_qs (resolve_nodes_qs db pl pr h)) \<subseteq> {n \<in> set (Node_objects db). active n}"
  using set_filter_platform__name [of db "the pl" "active_qs (Node_objects db)"]
    set_filter_protocols__name [of db "the pr" "active_qs (Node_objects db)"]
  by (auto simp: active_qs_def resolve_nodes_qs_def Let_def)

lemma resolve_nodes_Inr:
  assumes "resolve_nodes db today pl pr h = Inr rows"
  shows "\<exists>ann. annotate (\<lambda>n. scalar_subquery (resolve_nodes_stat db today n))
                 (active_qs (resolve_nodes_qs db pl pr h)) = Inr ann \<and>
               rows = order_by_desc_nulls_last snd ann"
  using assms by (auto simp: resolve_nodes_def split: sum.splits)

lemma resolve_nodes_Inl:
  assumes "resolve_nodes db today pl pr h = Inl e"
  shows "e = CardinalityViolation \<and>
         (\<exists>n \<in> set (Node_objects db). active n \<and> 1 < length (resolve_nodes_stat db today n))"
proof -
  from assms have
    "annotate (\<lambda>n. scalar_subquery (resolve_nodes_stat db today n))
       (active_qs (resolve_nodes_qs db pl pr h)) = Inl e"
    by (auto simp: resolve_nodes_def split: sum.splits)
  from annotate_Inl [OF this] obtain n where
    n: "n \<in> set (active_qs (resolve_nodes_qs db pl pr h))" and
    e: "scalar_subquery (resolve_nodes_stat db today n) = Inl e"
    by blast
  from n resolve_nodes_qs_active have "n \<in> set (Node_objects db) \<and> active n" by blast
  with scalar_subquery_Inl [OF e] show ?thesis by blast
qed

text \<open>
  The query runs without error when no node has two stat rows of today with different
  monthly user counts.
\<close>

lemma resolve_nodes_returns:
  assumes "\<forall>s \<in> set (Stat_objects db). \<forall>s' \<in> set (Stat_objects db).
     stat_node s = stat_node s' \<and> date s = today \<and> date s' = today \<longrightarrow>
       users_monthly s = users_monthly s'"
  shows "\<exists>rows. resolve_nodes db today pl pr h = Inr rows"
proof -
  have "\<exists>c. scalar_subquery (resolve_nodes_stat db today n) = Inr c" for n
  proof -
    let ?rows = "filter (\<lambda>s. stat_node s = Some (node_id n) \<and> date s = today) (Stat_objects db)"
    from assms
    have "\<forall>x \<in> set (map users_monthly ?rows). \<forall>y \<in> set (map users_monthly ?rows). x = y"
      by auto
    from remdups_all_equal [OF this] show ?thesis
      by (auto simp: group_by_def resolve_nodes_stat_def)
  qed
  then have "\<exists>rows. annotate (\<lambda>n. scalar_subquery (resolve_nodes_stat db today n)) qs = Inr rows"
    for qs
    by (intro annotate_total) simp
  then obtain rows where
    "annotate (\<lambda>n. scalar_subquery (resolve_nodes_stat db today n))
       (active_qs (resolve_nodes_qs db pl pr h)) = Inr rows"
    by blast
  then show ?thesis
    by (simp add: resolve_nodes_def)
qed

text \<open>
  C4. Whatever the \<^verbatim>\<open>platform\<close>, \<^verbatim>\<open>protocol\<close> and \<^verbatim>\<open>host\<close> arguments are, every node in the result
  of \<^verbatim>\<open>resolve_nodes\<close> is an active node of the table. The only way the query gives no
  result is the database's error for an active node whose subquery has more than one row.
\<close>

theorem nodes_only_active:
  "(resolve_nodes db today pl pr h = Inr rows \<longrightarrow>
      (\<forall>(n, u) \<in> set rows. n \<in> set (Node_objects db) \<and> active n)) \<and>
   (resolve_nodes db today pl pr h = Inl e \<longrightarrow>
      e = CardinalityViolation \<and>
      (\<exists>n \<in> set (Node_objects db). active n \<and> 1 < length (resolve_nodes_stat db today n)))"
proof (intro conjI impI)
  assume r: "resolve_nodes db today pl pr h = Inr rows"
  from resolve_nodes_Inr [OF r] obtain ann where
    ann: "annotate (\<lambda>n. scalar_subquery (resolve_nodes_stat db today n))
            (active_qs (resolve_nodes_qs db pl pr h)) = Inr ann" and
    rows: "rows = order_by_desc_nulls_last snd ann"
    by blast
  from annotate_Inr [OF ann] have "map fst ann = active_qs (resolve_nodes_qs db pl pr h)"
    by simp
  then have "fst ` set ann = set (active_qs (resolve_nodes_qs db pl pr h))"
    by (metis set_map)
  moreover have "fst x \<in> fst ` set ann" if "x \<in> set ann" for x
    using that by (rule imageI)
  ultimately have "\<forall>(n, u) \<in> set ann. n \<in> set (active_qs (resolve_nodes_qs db pl pr h))"
    by fastforce
  with resolve_nodes_qs_active [of db pl pr h] rows
  show "\<forall>(n, u) \<in> set rows. n \<in> set (Node_objects db) \<and> active n"
    by (auto simp: set_order_by_desc_nulls_last)
next
  assume "resolve_nodes db today pl pr h = Inl e"
  then show "e = CardinalityViolation"
    and "\<exists>n \<in> set (Node_objects db). active n \<and> 1 < length (resolve_nodes_stat db today n)"
    using resolve_nodes_Inl by blast+
qed

theorem nodes_only_active_witness:
  "resolve_nodes example_db 738888 (Some ''diaspora'') None None =
     Inr [(\<lparr>node_id = 1, host = ''a.example'', active = True,
            node_platform = Some 1, node_protocols = [1]\<rparr>, Some 5)] \<and>
   active \<lparr>node_id = 1, host = ''a.example'', active = True,
           node_platform = Some 1, node_protocols = [1]\<rparr>"
proof -
  have e: "resolve_nodes example_db 738888 (Some ''diaspora'') None None =
     Inr [(\<lparr>node_id = 1, host = ''a.example'', active = True,
            node_platform = Some 1, node_protocols = [1]\<rparr>, Some 5)]"
    by code_simp
  from nodes_only_active [of example_db 738888 "Some ''diaspora''" None None
      "[(\<lparr>node_id = 1, host = ''a.example'', active = True,
            node_platform = Some 1, node_protocols = [1]\<rparr>, Some 5)]"] e
  show ?thesis by simp
qed

text \<open>
  C5. The rows that \<^verbatim>\<open>resolve_nodes\<close> returns are in non-increasing order of their \<^verbatim>\<open>users\<close>
  column with NULL after every value, and the \<^verbatim>\<open>users\<close> of a row is the maximum of today's
  monthly user counts of its node. Two active nodes with today's counts 5 and 50, in that
  order in the table, are returned as the node with 50, then the node with 5.
\<close>

theorem nodes_ordered_by_users:
  "(resolve_nodes db today pl pr h = Inr rows \<longrightarrow>
      sorted_wrt users_ge (map snd rows) \<and>
      (\<forall>(n, u) \<in> set rows.
         u = sql_max (map users_monthly
               (filter (\<lambda>s. stat_node s = Some (node_id n) \<and> date s = today)
                  (Stat_objects db))))) \<and>
   resolve_nodes nodes_example_db 738888 None None None =
     Inr [(\<lparr>node_id = 2, host = ''big.example'', active = True,
            node_platform = Some 1, node_protocols = [1]\<rparr>, Some 50),
          (\<lparr>node_id = 1, host = ''small.example'', active = True,
            node_platform = Some 1, node_protocols = [1]\<rparr>, Some 5)]"
proof (intro conjI impI)
  assume r: "resolve_nodes db today pl pr h = Inr rows"
  from resolve_nodes_Inr [OF r] obtain ann where
    ann: "annotate (\<lambda>n. scalar_subquery (resolve_nodes_stat db today n))
            (active_qs (resolve_nodes_qs db pl pr h)) = Inr ann" and
    rows: "rows = order_by_desc_nulls_last snd ann"
    by blast
  show "sorted_wrt users_ge (map snd rows)"
    unfolding rows sorted_wrt_map by (rule sorted_order_by_desc_nulls_last)
  from annotate_Inr [OF ann] rows
  show "\<forall>(n, u) \<in> set rows.
         u = sql_max (map users_monthly
               (filter (\<lambda>s. stat_node s = Some (node_id n) \<and> date s = today)
                  (Stat_objects db)))"
    by (auto simp: set_order_by_desc_nulls_last resolve_nodes_stat_def dest!: scalar_group_max)
next
  show "resolve_nodes nodes_example_db 738888 None None None =
     Inr [(\<lparr>node_id = 2, host = ''big.example'', active = True,
            node_platform = Some 1, node_protocols = [1]\<rparr>, Some 50),
          (\<lparr>node_id = 1, host = ''small.example'', active = True,
            node_platform = Some 1, node_protocols = [1]\<rparr>, Some 5)]"
    by code_simp
qed

theorem nodes_ordered_by_users_witness:
  "map (\<lambda>(n, u). (node_id n, u)) (projr (resolve_nodes example_db 738888 None None None)) =
     [(2, Some 50), (1, Some 5), (4, None)] \<and>
   sorted_wrt users_ge [Some 50, Some 5, None]"
proof -
  have e: "resolve_nodes example_db 738888 None None None =
     Inr [(\<lparr>node_id = 2, host = ''b.example'', active = True,
            node_platform = Some 2, node_protocols = [1, 2]\<rparr>, Some 50),
          (\<lparr>node_id = 1, host = ''a.example'', active = True,
            node_platform = Some 1, node_protocols = [1]\<rparr>, Some 5),
          (\<lparr>node_id = 4, host = ''d.example'', active = True,
            node_platform = Some 2, node_protocols = [1]\<rparr>, None)]"
    by code_simp
  from nodes_ordered_by_users [THEN conjunct1, THEN mp, OF e, THEN conjunct1]
  have "sorted_wrt users_ge [Some 50, Some 5, None]" by simp
  then show ?thesis by (simp add: e)
qed

section \<open>Today's row of a platform or a protocol\<close>

lemma first_Some:
  assumes "first qs = Some s"
  shows "s \<in> set qs \<and> (\<forall>s' \<in> set qs. stat_id s \<le> stat_id s')"
proof -
  from assms obtain rest where eq: "sort_key stat_id qs = s # rest"
    by (auto simp: first_def split: list.splits)
  have "set (sort_key stat_id qs) = set qs" by simp
  with eq have mem: "set qs = insert s (set rest)" by simp
  have "sorted (map stat_id (sort_key stat_id qs))" by (rule sorted_sort_key)
  with eq have "\<forall>s' \<in> set rest. stat_id s \<le> stat_id s'" by simp
  with mem show ?thesis by auto
qed

lemma first_None: "first qs = None \<longleftrightarrow> qs = []"
proof -
  have "sort_key stat_id qs = [] \<longleftrightarrow> qs = []"
    by (metis set_sort set_empty)
  then show ?thesis by (cases "sort_key stat_id qs") (auto simp: first_def)
qed

lemma first_cases:
  "(case first qs of
      None \<Rightarrow> \<forall>s. s \<notin> set qs
    | Some s \<Rightarrow> s \<in> set qs \<and> (\<forall>s'. s' \<in> set qs \<longrightarrow> stat_id s \<le> stat_id s'))"
proof (cases "first qs")
  case None
  then have "qs = []" by (simp only: first_None)
  with None show ?thesis by simp
next
  case (Some s)
  from first_Some [OF Some] Some show ?thesis by simp
qed

lemma set_platform_rows_today:
  "set (filter_platform_name_stat db v
          (filter (\<lambda>s. stat_node s = None \<and> stat_protocol s = None \<and> date s = today)
             (Stat_objects db))) = {s. platform_row_today db today v s}"
  by (auto simp: filter_platform_name_stat_def platform_row_today_def)

lemma set_protocol_rows_today:
  "set (filter_protocol_name_stat db v
          (filter (\<lambda>s. stat_node s = None \<and> stat_platform s = None \<and> date s = today)
             (Stat_objects db))) = {s. protocol_row_today db today v s}"
  by (auto simp: filter_protocol_name_stat_def protocol_row_today_def)

text \<open>
  C3. Without a \<^verbatim>\<open>name\<close>, or with an empty one, \<^verbatim>\<open>resolve_stats_platform_today\<close> and
  \<^verbatim>\<open>resolve_stats_protocol_today\<close> return the empty queryset; neither has a path that
  raises. With a name they return what \<^verbatim>\<open>first()\<close> gives on today's rows of that platform
  (protocol) whose other scope references are NULL: such a row, the one with the least
  key, or \<open>None\<close> when there is no such row.
\<close>

theorem stats_today_by_name:
  "(\<not> truthy name \<longrightarrow>
      resolve_stats_platform_today db today name = QuerySet [] \<and>
      resolve_stats_protocol_today db today name = QuerySet []) \<and>
   (truthy name \<longrightarrow>
      (\<exists>r. resolve_stats_platform_today db today name = Object r \<and>
         (case r of
            None \<Rightarrow> \<forall>s. \<not> platform_row_today db today (the name) s
          | Some s \<Rightarrow> platform_row_today db today (the name) s \<and>
              (\<forall>s'. platform_row_today db today (the name) s' \<longrightarrow> stat_id s \<le> stat_id s'))) \<and>
      (\<exists>r. resolve_stats_protocol_today db today name = Object r \<and>
         (case r of
            None \<Rightarrow> \<forall>s. \<not> protocol_row_today db today (the name) s
          | Some s \<Rightarrow> protocol_row_today db today (the name) s \<and>
              (\<forall>s'. protocol_row_today db today (the name) s' \<longrightarrow> stat_id s \<le> stat_id s'))))"
proof (intro conjI impI)
  assume "\<not> truthy name"
  then show "resolve_stats_platform_today db today name = QuerySet []"
    and "resolve_stats_protocol_today db today name = QuerySet []"
    by (simp_all add: resolve_stats_platform_today_def resolve_stats_protocol_today_def)
next
  assume t: "truthy name"
  let ?qs = "filter_platform_name_stat db (the name)
               (filter (\<lambda>s. stat_node s = None \<and> stat_protocol s = None \<and> date s = today)
                  (Stat_objects db))"
  from t have "resolve_stats_platform_today db today name = Object (first ?qs)"
    by (simp add: resolve_stats_platform_today_def)
  moreover from first_cases [of ?qs]
  have "case first ?qs of
            None \<Rightarrow> \<forall>s. \<not> platform_row_today db today (the name) s
          | Some s \<Rightarrow> platform_row_today db today (the name) s \<and>
              (\<forall>s'. platform_row_today db today (the name) s' \<longrightarrow> stat_id s \<le> stat_id s')"
    by (simp only: set_platform_rows_today mem_Collect_eq)
  ultimately show "\<exists>r. resolve_stats_platform_today db today name = Object r \<and>
         (case r of
            None \<Rightarrow> \<forall>s. \<not> platform_row_today db today (the name) s
          | Some s \<Rightarrow> platform_row_today db today (the name) s \<and>
              (\<forall>s'. platform_row_today db today (the name) s' \<longrightarrow> stat_id s \<le> stat_id s'))"
    by blast
next
  assume t: "truthy name"
  let ?qs = "filter_protocol_name_stat db (the name)
               (filter (\<lambda>s. stat_node s = None \<and> stat_platform s = None \<and> date s = today)
                  (Stat_objects db))"
  from t have "resolve_stats_protocol_today db today name = Object (first ?qs)"
    by (simp add: resolve_stats_protocol_today_def)
  moreover from first_cases [of ?qs]
  have "case first ?qs of
            None \<Rightarrow> \<forall>s. \<not> protocol_row_today db today (the name) s
          | Some s \<Rightarrow> protocol_row_today db today (the name) s \<and>
              (\<forall>s'. protocol_row_today db today (the name) s' \<longrightarrow> stat_id s \<le> stat_id s')"
    by (simp only: set_protocol_rows_today mem_Collect_eq)
  ultimately show "\<exists>r. resolve_stats_protocol_today db today name = Object r \<and>
         (case r of
            None \<Rightarrow> \<forall>s. \<not> protocol_row_today db today (the name) s
          | Some s \<Rightarrow> protocol_row_today db today (the name) s \<and>
              (\<forall>s'. protocol_row_today db today (the name) s' \<longrightarrow> stat_id s \<le> stat_id s'))"
    by blast
qed

theorem stats_today_by_name_witness:
  "resolve_stats_platform_today example_db 738888 None = QuerySet [] \<and>
   resolve_stats_protocol_today example_db 738888 (Some []) = QuerySet [] \<and>
   resolve_stats_platform_today example_db 738888 (Some ''diaspora'') =
     Object (Some (mk_stat 5 738888 None (Some 1) None (Some 10) (Some 5))) \<and>
   platform_row_today example_db 738888 ''diaspora''
     (mk_stat 5 738888 None (Some 1) None (Some 10) (Some 5)) \<and>
   resolve_stats_protocol_today example_db 738888 (Some ''activitypub'') =
     Object (Some (mk_stat 6 738888 None None (Some 1) (Some 110) (Some 55))) \<and>
   protocol_row_today example_db 738888 ''activitypub''
     (mk_stat 6 738888 None None (Some 1) (Some 110) (Some 55)) \<and>
   resolve_stats_platform_today example_db 738888 (Some ''friendica'') = Object None"
proof -
  have a: "resolve_stats_platform_today example_db 738888 (Some ''diaspora'') =
     Object (Some (mk_stat 5 738888 None (Some 1) None (Some 10) (Some 5)))"
    by code_simp
  have b: "resolve_stats_protocol_today example_db 738888 (Some ''activitypub'') =
     Object (Some (mk_stat 6 738888 None None (Some 1) (Some 110) (Some 55)))"
    by code_simp
  have c: "resolve_stats_platform_today example_db 738888 (Some ''friendica'') = Object None"
    by code_simp
  from stats_today_by_name [of None example_db 738888]
    stats_today_by_name [of "Some []" example_db 738888]
    stats_today_by_name [of "Some ''diaspora''" example_db 738888]
    stats_today_by_name [of "Some ''activitypub''" example_db 738888]
    a b c
  show ?thesis by simp
qed

section \<open>The test-mode flag of the settings\<close>

lemma py_in_set: "py_in x xs \<longleftrightarrow> x \<in> set xs"
  by (induction xs) auto

text \<open>
  C9. \<^verbatim>\<open>testing\<close> is true exactly when \<^verbatim>\<open>CI\<close> is set to a true value, or \<^verbatim>\<open>TEST\<close> is, or
  "test" is one of the arguments of the process; \<^verbatim>\<open>REDIS_DB\<close> becomes 15 in that case and
  keeps the value of the base settings in every other.
\<close>

theorem testing_flag:
  "testing env argv =
     (env ''CI'' = Some True \<or> env ''TEST'' = Some True \<or> ''test'' \<in> set argv) \<and>
   REDIS_DB env argv base =
     (if env ''CI'' = Some True \<or> env ''TEST'' = Some True \<or> ''test'' \<in> set argv
      then Some 15 else base)"
  by (auto simp: testing_def env_bool_def REDIS_DB_def py_in_set split: option.splits)

theorem testing_flag_witness:
  "testing [''TEST'' \<mapsto> True] [''manage.py'', ''runserver''] \<and>
   REDIS_DB [''TEST'' \<mapsto> True] [''manage.py'', ''runserver''] (Some 0) = Some 15 \<and>
   testing Map.empty [''manage.py'', ''test''] \<and>
   \<not> testing [''CI'' \<mapsto> False] [''manage.py'', ''tests''] \<and>
   REDIS_DB [''CI'' \<mapsto> False] [''manage.py'', ''tests''] (Some 0) = Some 0"
  using testing_flag [of "[''TEST'' \<mapsto> True]" "[''manage.py'', ''runserver'']" "Some 0"]
    testing_flag [of Map.empty "[''manage.py'', ''test'']" "Some 0"]
    testing_flag [of "[''CI'' \<mapsto> False]" "[''manage.py'', ''tests'']" "Some 0"]
  by simp

section \<open>The platforms and protocols resolvers\<close>

lemma filter_remdups_eq:
  "filter (\<lambda>q. q = a) (remdups ps) = (if a \<in> set ps then [a] else [])"
  by (induction ps) auto

lemma set_order_by_desc: "set (order_by_desc k rs) = set rs"
  by (auto simp: order_by_desc_def)

lemma set_filter_gt: "set (filter_gt k b rs) = {r \<in> set rs. \<exists>c. k r = Some c \<and> b < c}"
  by (auto simp: filter_gt_def split: option.splits)

lemma sorted_order_by_desc:
  assumes "\<forall>r \<in> set rs. k r \<noteq> None"
  shows "sorted_wrt (\<lambda>x y. the (k y) \<le> the (k x)) (order_by_desc k rs)"
proof -
  from assms have "filter (\<lambda>r. k r = None) rs = []" by (simp add: filter_empty_conv)
  moreover have "sorted (map (\<lambda>r. - the (k r)) (sort_key (\<lambda>r. - the (k r)) (filter (\<lambda>r. k r \<noteq> None) rs)))"
    by (rule sorted_sort_key)
  ultimately show ?thesis
    by (simp add: order_by_desc_def sorted_map)
qed

lemma group_by_const:
  assumes "\<forall>r \<in> set rs. k r = g"
  shows "group_by k rs = (if rs = [] then [] else [(g, rs)])"
proof (cases "rs = []")
  case True
  then show ?thesis by (simp add: group_by_def)
next
  case False
  from assms have "\<forall>x \<in> set (map k rs). \<forall>y \<in> set (map k rs). x = y" by auto
  from remdups_all_equal [OF this] False obtain g' where g': "remdups (map k rs) = [g']"
    by auto
  from remdups_single [OF g'] assms False have "g' = g"
    by (cases rs) auto
  moreover from assms have "filter (\<lambda>r. k r = g) rs = rs" by (simp add: filter_id_conv)
  ultimately show ?thesis using g' False by (simp add: group_by_def)
qed

lemma count_subquery:
  assumes "\<forall>r \<in> set rs. k r = g"
  shows "scalar_subquery (map (\<lambda>(g, rows). Some (int (length rows))) (group_by k rs)) =
           Inr (if rs = [] then None else Some (int (length rs)))"
  by (simp add: group_by_const [OF assms])

lemma platforms_nodes:
  "scalar_subquery (resolve_platforms_nodes db p) =
     Inr (if filter (\<lambda>n. active n \<and> node_platform n = Some (platform_id p)) (Node_objects db) = [] then None
          else Some (int (length (filter (\<lambda>n. active n \<and> node_platform n = Some (platform_id p)) (Node_objects db)))))"
proof -
  let ?rows = "filter (\<lambda>n. node_platform n = Some (platform_id p)) (active_qs (Node_objects db))"
  have rows: "?rows = filter (\<lambda>n. active n \<and> node_platform n = Some (platform_id p)) (Node_objects db)"
    by (simp add: active_qs_def conj_commute)
  have "\<forall>n \<in> set ?rows. node_platform n = Some (platform_id p)" by simp
  from count_subquery [OF this] show ?thesis
    unfolding resolve_platforms_nodes_def rows .
qed

lemma join_links:
  "[(n, q). n \<leftarrow> ns, q \<leftarrow> remdups (f n), q = a] =
     map (\<lambda>n. (n, a)) (filter (\<lambda>n. a \<in> set (f n)) ns)"
proof -
  have inner: "concat (map (\<lambda>q. if q = a then [(n, q)] else []) xs) =
      map (\<lambda>q. (n, a)) (filter (\<lambda>q. q = a) xs)" for n :: 'a and xs
    by (induction xs) auto
  show ?thesis
    by (induction ns) (simp_all add: inner filter_remdups_eq)
qed

lemma protocols_nodes:
  "scalar_subquery (resolve_protocols_nodes db p) =
     Inr (if filter (\<lambda>n. active n \<and> protocol_id p \<in> set (node_protocols n)) (Node_objects db) = [] then None
          else Some (int (length (filter (\<lambda>n. active n \<and> protocol_id p \<in> set (node_protocols n)) (Node_objects db)))))"
proof -
  let ?rows = "[(n, q). n \<leftarrow> active_qs (Node_objects db), q \<leftarrow> remdups (node_protocols n), q = protocol_id p]"
  let ?ns = "filter (\<lambda>n. active n \<and> protocol_id p \<in> set (node_protocols n)) (Node_objects db)"
  have rows: "?rows = map (\<lambda>n. (n, protocol_id p)) ?ns"
    by (simp only: join_links active_qs_def filter_filter conj_commute)
  have "\<forall>r \<in> set (map (\<lambda>n. (n, protocol_id p)) ?ns). snd r = protocol_id p" by simp
  from count_subquery [OF this] show ?thesis
    unfolding resolve_protocols_nodes_def rows by simp
qed


lemma annotate_fun:
  "(\<forall>r \<in> set rs. f r = Inr (g r)) \<Longrightarrow> annotate f rs = Inr (map (\<lambda>r. (r, g r)) rs)"
  by (induction rs) auto

lemma count_pipeline:
  assumes "\<forall>p \<in> set qs. f p = Inr (if A p = [] then None else Some (int (length (A p))))"
  shows "\<exists>rows.
           (case annotate f qs of
              Inl e \<Rightarrow> Inl e
            | Inr rows \<Rightarrow> Inr (order_by_desc snd (filter_gt snd 0 rows))) = Inr rows \<and>
           set rows = (\<lambda>p. (p, Some (int (length (A p))))) ` {p \<in> set qs. A p \<noteq> []} \<and>
           sorted_wrt (\<lambda>x y. the (snd y) \<le> the (snd x)) rows"
proof -
  let ?g = "\<lambda>p. if A p = [] then None else Some (int (length (A p)))"
  let ?ann = "map (\<lambda>p. (p, ?g p)) qs"
  let ?rows = "order_by_desc snd (filter_gt snd 0 ?ann)"
  from annotate_fun [of qs f ?g] assms have ann: "annotate f qs = Inr ?ann" by blast
  have "set ?rows = {r \<in> set ?ann. \<exists>c. snd r = Some c \<and> 0 < c}"
    by (simp only: set_order_by_desc set_filter_gt)
  also have "\<dots> = (\<lambda>p. (p, Some (int (length (A p))))) ` {p \<in> set qs. A p \<noteq> []}"
    by (auto simp: image_iff)
  finally have set_rows: "set ?rows = (\<lambda>p. (p, Some (int (length (A p))))) ` {p \<in> set qs. A p \<noteq> []}" .
  have "\<forall>r \<in> set (filter_gt snd 0 ?ann). snd r \<noteq> None"
    by (simp only: set_filter_gt) auto
  then have "sorted_wrt (\<lambda>x y. the (snd y) \<le> the (snd x)) ?rows"
    by (rule sorted_order_by_desc)
  with ann set_rows show ?thesis by simp
qed

lemma resolve_platforms_rows:
  "\<exists>rows. resolve_platforms db name = Inr rows \<and>
     set rows =
       (\<lambda>p. (p, Some (int (length (filter (\<lambda>n. active n \<and> node_platform n = Some (platform_id p))
                                       (Node_objects db)))))) `
       {p \<in> set (if truthy name
                  then filter (\<lambda>p. platform_name p = lower (the name)) (Platform_objects db)
                  else Platform_objects db).
          filter (\<lambda>n. active n \<and> node_platform n = Some (platform_id p)) (Node_objects db) \<noteq> []} \<and>
     sorted_wrt (\<lambda>x y. the (snd y) \<le> the (snd x)) rows"
  unfolding resolve_platforms_def Let_def
  by (rule count_pipeline) (simp add: platforms_nodes)

lemma resolve_protocols_rows:
  "\<exists>rows. resolve_protocols db name = Inr rows \<and>
     set rows =
       (\<lambda>p. (p, Some (int (length (filter (\<lambda>n. active n \<and> protocol_id p \<in> set (node_protocols n))
                                       (Node_objects db)))))) `
       {p \<in> set (if truthy name
                  then filter (\<lambda>p. protocol_name p = lower (the name)) (Protocol_objects db)
                  else Protocol_objects db).
          filter (\<lambda>n. active n \<and> protocol_id p \<in> set (node_protocols n)) (Node_objects db) \<noteq> []} \<and>
     sorted_wrt (\<lambda>x y. the (snd y) \<le> the (snd x)) rows"
  unfolding resolve_protocols_def Let_def
  by (rule count_pipeline) (simp add: protocols_nodes)

text \<open>
  C6. \<^verbatim>\<open>resolve_platforms\<close> and \<^verbatim>\<open>resolve_protocols\<close> always return a result; each returned
  entry is a row of the table with the number of active nodes that refer to it (for a
  protocol, that are linked to it), that number is not zero, and the entries are in
  descending order of that number.
\<close>

theorem platforms_protocols_active:
  "(\<exists>rows. resolve_platforms db name = Inr rows \<and>
      (\<forall>(p, c) \<in> set rows.
         p \<in> set (Platform_objects db) \<and>
         c = Some (int (length (filter (\<lambda>n. active n \<and> node_platform n = Some (platform_id p))
                                  (Node_objects db)))) \<and>
         c \<noteq> Some 0) \<and>
      sorted_wrt (\<lambda>x y. the (snd y) \<le> the (snd x)) rows) \<and>
   (\<exists>rows. resolve_protocols db name = Inr rows \<and>
      (\<forall>(p, c) \<in> set rows.
         p \<in> set (Protocol_objects db) \<and>
         c = Some (int (length (filter (\<lambda>n. active n \<and> protocol_id p \<in> set (node_protocols n))
                                  (Node_objects db)))) \<and>
         c \<noteq> Some 0) \<and>
      sorted_wrt (\<lambda>x y. the (snd y) \<le> the (snd x)) rows)"
proof (rule conjI)
  from resolve_platforms_rows [of db name] obtain rows where
    r: "resolve_platforms db name = Inr rows" and
    s: "set rows =
       (\<lambda>p. (p, Some (int (length (filter (\<lambda>n. active n \<and> node_platform n = Some (platform_id p))
                                       (Node_objects db)))))) `
       {p \<in> set (if truthy name
                  then filter (\<lambda>p. platform_name p = lower (the name)) (Platform_objects db)
                  else Platform_objects db).
          filter (\<lambda>n. active n \<and> node_platform n = Some (platform_id p)) (Node_objects db) \<noteq> []}" and
    o: "sorted_wrt (\<lambda>x y. the (snd y) \<le> the (snd x)) rows"
    by blast
  have "\<forall>(p, c) \<in> set rows.
         p \<in> set (Platform_objects db) \<and>
         c = Some (int (length (filter (\<lambda>n. active n \<and> node_platform n = Some (platform_id p))
                                  (Node_objects db)))) \<and>
         c \<noteq> Some 0"
    unfolding s by (auto split: if_splits)
  with r o show "\<exists>rows. resolve_platforms db name = Inr rows \<and>
      (\<forall>(p, c) \<in> set rows.
         p \<in> set (Platform_objects db) \<and>
         c = Some (int (length (filter (\<lambda>n. active n \<and> node_platform n = Some (platform_id p))
                                  (Node_objects db)))) \<and>
         c \<noteq> Some 0) \<and>
      sorted_wrt (\<lambda>x y. the (snd y) \<le> the (snd x)) rows"
    by blast
next
  from resolve_protocols_rows [of db name] obtain rows where
    r: "resolve_protocols db name = Inr rows" and
    s: "set rows =
       (\<lambda>p. (p, Some (int (length (filter (\<lambda>n. active n \<and> protocol_id p \<in> set (node_protocols n))
                                       (Node_objects db)))))) `
       {p \<in> set (if truthy name
                  then filter (\<lambda>p. protocol_name p = lower (the name)) (Protocol_objects db)
                  else Protocol_objects db).
          filter (\<lambda>n. active n \<and> protocol_id p \<in> set (node_protocols n)) (Node_objects db) \<noteq> []}" and
    o: "sorted_wrt (\<lambda>x y. the (snd y) \<le> the (snd x)) rows"
    by blast
  have "\<forall>(p, c) \<in> set rows.
         p \<in> set (Protocol_objects db) \<and>
         c = Some (int (length (filter (\<lambda>n. active n \<and> protocol_id p \<in> set (node_protocols n))
                                  (Node_objects db)))) \<and>
         c \<noteq> Some 0"
    unfolding s by (auto split: if_splits)
  with r o show "\<exists>rows. resolve_protocols db name = Inr rows \<and>
      (\<forall>(p, c) \<in> set rows.
         p \<in> set (Protocol_objects db) \<and>
         c = Some (int (length (filter (\<lambda>n. active n \<and> protocol_id p \<in> set (node_protocols n))
                                  (Node_objects db)))) \<and>
         c \<noteq> Some 0) \<and>
      sorted_wrt (\<lambda>x y. the (snd y) \<le> the (snd x)) rows"
    by blast
qed

theorem platforms_protocols_active_witness:
  "resolve_platforms example_db None =
     Inr [(\<lparr>platform_id = 2, platform_name = ''mastodon''\<rparr>, Some 2),
          (\<lparr>platform_id = 1, platform_name = ''diaspora''\<rparr>, Some 1)] \<and>
   resolve_protocols example_db None =
     Inr [(\<lparr>protocol_id = 1, protocol_name = ''activitypub''\<rparr>, Some 3),
          (\<lparr>protocol_id = 2, protocol_name = ''ActivityPub''\<rparr>, Some 1)]"
proof -
  have a: "resolve_platforms example_db None =
     Inr [(\<lparr>platform_id = 2, platform_name = ''mastodon''\<rparr>, Some 2),
          (\<lparr>platform_id = 1, platform_name = ''diaspora''\<rparr>, Some 1)]"
    by code_simp
  have b: "resolve_protocols example_db None =
     Inr [(\<lparr>protocol_id = 1, protocol_name = ''activitypub''\<rparr>, Some 3),
          (\<lparr>protocol_id = 2, protocol_name = ''ActivityPub''\<rparr>, Some 1)]"
    by code_simp
  from platforms_protocols_active [of example_db None] a b show ?thesis
    by simp
qed

text \<open>
  C8, as the code has it. With a \<^verbatim>\<open>name\<close>, both \<^verbatim>\<open>resolve_platforms\<close> and \<^verbatim>\<open>resolve_protocols\<close>
  compare the stored name with the lower-cased argument: the entries returned are those
  rows whose name is the lower-cased argument and that have an active node.
\<close>

theorem name_filter_lowercased:
  "truthy name \<Longrightarrow>
     (\<exists>rows. resolve_platforms db name = Inr rows \<and>
        fst ` set rows =
          {p \<in> set (Platform_objects db). platform_name p = lower (the name) \<and>
             (\<exists>n \<in> set (Node_objects db). active n \<and> node_platform n = Some (platform_id p))}) \<and>
     (\<exists>rows. resolve_protocols db name = Inr rows \<and>
        fst ` set rows =
          {p \<in> set (Protocol_objects db). protocol_name p = lower (the name) \<and>
             (\<exists>n \<in> set (Node_objects db). active n \<and> protocol_id p \<in> set (node_protocols n))})"
proof (rule conjI)
  assume t: "truthy name"
  from resolve_platforms_rows [of db name] obtain rows where
    r: "resolve_platforms db name = Inr rows" and
    s: "set rows =
       (\<lambda>p. (p, Some (int (length (filter (\<lambda>n. active n \<and> node_platform n = Some (platform_id p))
                                       (Node_objects db)))))) `
       {p \<in> set (if truthy name
                  then filter (\<lambda>p. platform_name p = lower (the name)) (Platform_objects db)
                  else Platform_objects db).
          filter (\<lambda>n. active n \<and> node_platform n = Some (platform_id p)) (Node_objects db) \<noteq> []}"
    by blast
  have "fst ` set rows =
          {p \<in> set (Platform_objects db). platform_name p = lower (the name) \<and>
             (\<exists>n \<in> set (Node_objects db). active n \<and> node_platform n = Some (platform_id p))}"
    unfolding s using t by (auto simp: image_image filter_empty_conv)
  with r show "\<exists>rows. resolve_platforms db name = Inr rows \<and>
        fst ` set rows =
          {p \<in> set (Platform_objects db). platform_name p = lower (the name) \<and>
             (\<exists>n \<in> set (Node_objects db). active n \<and> node_platform n = Some (platform_id p))}"
    by blast
next
  assume t: "truthy name"
  from resolve_protocols_rows [of db name] obtain rows where
    r: "resolve_protocols db name = Inr rows" and
    s: "set rows =
       (\<lambda>p. (p, Some (int (length (filter (\<lambda>n. active n \<and> protocol_id p \<in> set (node_protocols n))
                                       (Node_objects db)))))) `
       {p \<in> set (if truthy name
                  then filter (\<lambda>p. protocol_name p = lower (the name)) (Protocol_objects db)
                  else Protocol_objects db).
          filter (\<lambda>n. active n \<and> protocol_id p \<in> set (node_protocols n)) (Node_objects db) \<noteq> []}"
    by blast
  have "fst ` set rows =
          {p \<in> set (Protocol_objects db). protocol_name p = lower (the name) \<and>
             (\<exists>n \<in> set (Node_objects db). active n \<and> protocol_id p \<in> set (node_protocols n))}"
    unfolding s using t by (auto simp: image_image filter_empty_conv)
  with r show "\<exists>rows. resolve_protocols db name = Inr rows \<and>
        fst ` set rows =
          {p \<in> set (Protocol_objects db). protocol_name p = lower (the name) \<and>
             (\<exists>n \<in> set (Node_objects db). active n \<and> protocol_id p \<in> set (node_protocols n))}"
    by blast
qed

theorem name_filter_lowercased_witness:
  "resolve_platforms example_db (Some ''Mastodon'') =
     Inr [(\<lparr>platform_id = 2, platform_name = ''mastodon''\<rparr>, Some 2)] \<and>
   resolve_protocols example_db (Some ''ACTIVITYPUB'') =
     Inr [(\<lparr>protocol_id = 1, protocol_name = ''activitypub''\<rparr>, Some 3)] \<and>
   lower ''Mastodon'' = ''mastodon'' \<and> lower ''ACTIVITYPUB'' = ''activitypub''"
proof -
  have a: "resolve_platforms example_db (Some ''Mastodon'') =
     Inr [(\<lparr>platform_id = 2, platform_name = ''mastodon''\<rparr>, Some 2)]"
    by code_simp
  have b: "resolve_protocols example_db (Some ''ACTIVITYPUB'') =
     Inr [(\<lparr>protocol_id = 1, protocol_name = ''activitypub''\<rparr>, Some 3)]"
    by code_simp
  have c: "lower ''Mastodon'' = ''mastodon''" "lower ''ACTIVITYPUB'' = ''activitypub''"
    by code_simp+
  have t: "truthy (Some ''Mastodon'')" "truthy (Some ''ACTIVITYPUB'')" by simp_all
  from name_filter_lowercased [OF t(1), of example_db]
    name_filter_lowercased [OF t(2), of example_db] a b c
  show ?thesis by simp
qed

text \<open>
  The claim as the spec states it, that \<^verbatim>\<open>resolve_protocols\<close> filters by the name as given,
  fails: asked for "ActivityPub", it returns the protocol stored as "activitypub" and
  not the protocol stored as "ActivityPub", which is in the table and has an active node.
\<close>

theorem protocols_exact_name_counterexample:
  "resolve_protocols example_db (Some ''ActivityPub'') =
     Inr [(\<lparr>protocol_id = 1, protocol_name = ''activitypub''\<rparr>, Some 3)] \<and>
   \<lparr>protocol_id = 2, protocol_name = ''ActivityPub''\<rparr> \<in> set (Protocol_objects example_db) \<and>
   resolve_protocols example_db None =
     Inr [(\<lparr>protocol_id = 1, protocol_name = ''activitypub''\<rparr>, Some 3),
          (\<lparr>protocol_id = 2, protocol_name = ''ActivityPub''\<rparr>, Some 1)]"
  by code_simp

section \<open>Scoped aggregates\<close>

lemma set_filter_node__platform__name:
  "set (filter_node__platform__name db v (Stat_objects db)) =
     {s \<in> set (Stat_objects db). v \<in> set (joined_values db ''platform'' s)}"
  by (auto simp: filter_node__platform__name_def filter_platform__name_def joined_values_def)

lemma set_filter_node__protocols__name:
  "set (filter_node__protocols__name db v (Stat_objects db)) =
     {s \<in> set (Stat_objects db). v \<in> set (joined_values db ''protocol'' s)}"
  by (auto simp: filter_node__protocols__name_def filter_protocols__name_def joined_values_def)

lemma set_filter_node__host:
  "set (filter_node__host db v (Stat_objects db)) =
     {s \<in> set (Stat_objects db). v \<in> set (joined_values db ''node'' s)}"
  by (auto simp: filter_node__host_def joined_values_def)

lemma scoped_qs:
  assumes "truthy value" and "item_type \<in> {Some ''platform'', Some ''node'', Some ''protocol''}"
  shows "\<exists>qs. get_stat_date_counts_qs db value item_type = Inr qs \<and>
     set qs = {s \<in> set (Stat_objects db). the value \<in> set (joined_values db (the item_type) s)}"
  using assms
  by (auto simp: get_stat_date_counts_qs_def set_filter_node__platform__name
      set_filter_node__protocols__name set_filter_node__host)

lemma active_ratio_via_qs:
  "resolve_stats_users_active_ratio db value item_type =
     (case get_stat_date_counts_qs db value item_type of
        Inl e \<Rightarrow> Inl e
      | Inr qs \<Rightarrow>
          Inr (date_counts
                 (\<lambda>rows. (sql_sum (map users_monthly rows), sql_sum (map users_total rows))) qs))"
  by (simp add: resolve_stats_users_active_ratio_def get_stat_date_counts_qs_def)

lemma per_node_via_qs:
  "resolve_stats_users_per_node db value item_type =
     (case get_stat_date_counts_qs db value item_type of
        Inl e \<Rightarrow> Inl e
      | Inr qs \<Rightarrow> Inr (date_counts (\<lambda>rows. sql_avg (map users_total rows)) qs))"
  by (simp add: resolve_stats_users_per_node_def get_stat_date_counts_qs_def)

lemma stat_resolvers_helper:
  "(r, m) \<in> set stat_resolvers \<Longrightarrow> r db value item_type = get_stat_date_counts db m value item_type"
  by (auto simp: stat_resolvers_def resolve_stats_users_total_def resolve_stats_users_half_year_def
      resolve_stats_users_monthly_def resolve_stats_users_weekly_def resolve_stats_local_posts_def
      resolve_stats_local_comments_def)

lemma non_null_all_Some: "\<forall>x \<in> set xs. x \<noteq> None \<Longrightarrow> non_null xs = map the xs"
  by (induction xs) (auto simp: non_null_def)

lemma sql_sum_all_Some:
  "xs \<noteq> [] \<Longrightarrow> \<forall>x \<in> set xs. x \<noteq> None \<Longrightarrow> sql_sum xs = Some (sum_list (map the xs))"
  by (cases xs) (auto simp: sql_sum_def non_null_all_Some)

text \<open>
  C2. For an \<^verbatim>\<open>itemType\<close> among "platform", "node" and "protocol" with a non-empty \<^verbatim>\<open>value\<close>,
  every scoped aggregate resolver (the six sums, the active ratio and the users per node)
  returns the per-date aggregate of one queryset, and the rows of that queryset are the
  stat rows from which the join of the item type (platform name of the node, protocol
  name of the node, host of the node) reaches the value.
\<close>

theorem scoped_by_join:
  "truthy value \<Longrightarrow> item_type \<in> {Some ''platform'', Some ''node'', Some ''protocol''} \<Longrightarrow>
     \<exists>qs. set qs = {s \<in> set (Stat_objects db).
                     the value \<in> set (joined_values db (the item_type) s)} \<and>
       (\<forall>(r, m) \<in> set stat_resolvers.
          r db value item_type = Inr (date_counts (\<lambda>rows. sql_sum (map m rows)) qs)) \<and>
       resolve_stats_users_active_ratio db value item_type =
         Inr (date_counts
                (\<lambda>rows. (sql_sum (map users_monthly rows), sql_sum (map users_total rows))) qs) \<and>
       resolve_stats_users_per_node db value item_type =
         Inr (date_counts (\<lambda>rows. sql_avg (map users_total rows)) qs)"
proof -
  assume "truthy value" and "item_type \<in> {Some ''platform'', Some ''node'', Some ''protocol''}"
  from scoped_qs [OF this, of db] obtain qs where
    qs: "get_stat_date_counts_qs db value item_type = Inr qs" and
    s: "set qs = {s \<in> set (Stat_objects db). the value \<in> set (joined_values db (the item_type) s)}"
    by blast
  have "\<forall>(r, m) \<in> set stat_resolvers.
          r db value item_type = Inr (date_counts (\<lambda>rows. sql_sum (map m rows)) qs)"
    using qs by (auto simp: stat_resolvers_helper get_stat_date_counts_def)
  with qs s show ?thesis
    by (auto simp: active_ratio_via_qs per_node_via_qs)
qed

theorem scoped_by_join_witness:
  "resolve_stats_users_total example_db (Some ''ActivityPub'') (Some ''protocol'') =
     Inr [(738887, Some 90), (738888, Some 100)] \<and>
   resolve_stats_users_active_ratio example_db (Some ''ActivityPub'') (Some ''protocol'') =
     Inr [(738887, Some 40, Some 90), (738888, Some 50, Some 100)] \<and>
   resolve_stats_users_per_node example_db (Some ''ActivityPub'') (Some ''protocol'') =
     Inr [(738887, Some (90, 1)), (738888, Some (100, 1))] \<and>
   joined_values example_db ''protocol''
     (mk_stat 3 738888 (Some 2) None None (Some 100) (Some 50)) =
     [''activitypub'', ''ActivityPub''] \<and>
   joined_values example_db ''protocol''
     (mk_stat 1 738888 (Some 1) None None (Some 10) (Some 5)) = [''activitypub'']"
proof -
  have t: "truthy (Some ''ActivityPub'')" by simp
  have v: "Some ''protocol'' \<in> {Some ''platform'', Some ''node'', Some ''protocol''}" by simp
  have a: "resolve_stats_users_total example_db (Some ''ActivityPub'') (Some ''protocol'') =
     Inr [(738887, Some 90), (738888, Some 100)]"
    by code_simp
  have b: "resolve_stats_users_active_ratio example_db (Some ''ActivityPub'') (Some ''protocol'') =
     Inr [(738887, Some 40, Some 90), (738888, Some 50, Some 100)]"
    by code_simp
  have c: "resolve_stats_users_per_node example_db (Some ''ActivityPub'') (Some ''protocol'') =
     Inr [(738887, Some (90, 1)), (738888, Some (100, 1))]"
    by code_simp
  have d: "joined_values example_db ''protocol''
     (mk_stat 3 738888 (Some 2) None None (Some 100) (Some 50)) =
     [''activitypub'', ''ActivityPub'']"
    by code_simp
  have e: "joined_values example_db ''protocol''
     (mk_stat 1 738888 (Some 1) None None (Some 10) (Some 5)) = [''activitypub'']"
    by code_simp
  from scoped_by_join [OF t v, of example_db] show ?thesis
    by (simp only: a b c d e simp_thms)
qed

section \<open>Sums per date\<close>

text \<open>
  C7. Each of \<^verbatim>\<open>resolve_stats_users_total\<close>, \<^verbatim>\<open>_half_year\<close>, \<^verbatim>\<open>_monthly\<close>, \<^verbatim>\<open>_weekly\<close>,
  \<^verbatim>\<open>resolve_stats_local_posts\<close> and \<^verbatim>\<open>_local_comments\<close> returns, for the queryset \<open>qs\<close> that the
  scope selects, one row for each date of \<open>qs\<close>, in strictly ascending order of the date,
  whose count is the SQL sum of the resolver's metric over the rows of \<open>qs\<close> of that
  date: the sum of the values when none of them is NULL. On stat rows for 2024-01-01 to
  2024-01-03 with ten users each, the unscoped \<^verbatim>\<open>resolve_stats_users_total\<close> gives the three
  dates in ascending order with count 10.
\<close>

theorem date_sums:
  "((r, m) \<in> set stat_resolvers \<and> get_stat_date_counts_qs db value item_type = Inr qs \<longrightarrow>
      (\<exists>rows. r db value item_type = Inr rows \<and>
         sorted_wrt (<) (map fst rows) \<and>
         set (map fst rows) = date ` set qs \<and>
         (\<forall>(d, c) \<in> set rows.
            c = sql_sum (map m (filter (\<lambda>s. date s = d) qs)) \<and>
            ((\<forall>s \<in> set qs. date s = d \<longrightarrow> m s \<noteq> None) \<longrightarrow>
               c = Some (\<Sum>s\<leftarrow>filter (\<lambda>s. date s = d) qs. the (m s)))))) \<and>
   resolve_stats_users_total stats_example_db None None =
     Inr [(738886, Some 10), (738887, Some 10), (738888, Some 10)]"
proof (intro conjI impI)
  assume a: "(r, m) \<in> set stat_resolvers \<and> get_stat_date_counts_qs db value item_type = Inr qs"
  let ?rows = "date_counts (\<lambda>rows. sql_sum (map m rows)) qs"
  from a have "r db value item_type = get_stat_date_counts db m value item_type"
    by (intro stat_resolvers_helper) simp
  with a have r: "r db value item_type = Inr ?rows"
    by (simp add: get_stat_date_counts_def)
  have o: "sorted_wrt (<) (map fst ?rows)"
    using sorted_date_counts [of "\<lambda>rows. sql_sum (map m rows)" qs]
      distinct_date_counts [of "\<lambda>rows. sql_sum (map m rows)" qs]
    by (simp only: strict_sorted_iff)
  have c: "\<forall>(d, c) \<in> set ?rows.
            c = sql_sum (map m (filter (\<lambda>s. date s = d) qs)) \<and>
            ((\<forall>s \<in> set qs. date s = d \<longrightarrow> m s \<noteq> None) \<longrightarrow>
               c = Some (\<Sum>s\<leftarrow>filter (\<lambda>s. date s = d) qs. the (m s)))"
  proof (clarify, intro conjI impI)
    fix d c
    assume dc: "(d, c) \<in> set ?rows"
    then show c: "c = sql_sum (map m (filter (\<lambda>s. date s = d) qs))"
      by (simp add: in_date_counts)
    assume nn: "\<forall>s \<in> set qs. date s = d \<longrightarrow> m s \<noteq> None"
    from dc have "d \<in> date ` set qs" by (simp add: in_date_counts)
    then have ne: "map m (filter (\<lambda>s. date s = d) qs) \<noteq> []"
      by (auto simp: filter_empty_conv)
    from nn have "\<forall>x \<in> set (map m (filter (\<lambda>s. date s = d) qs)). x \<noteq> None" by auto
    from sql_sum_all_Some [OF ne this] c
    show "c = Some (\<Sum>s\<leftarrow>filter (\<lambda>s. date s = d) qs. the (m s))"
      by (simp add: comp_def)
  qed
  from r o c dates_date_counts [of "\<lambda>rows. sql_sum (map m rows)" qs]
  show "\<exists>rows. r db value item_type = Inr rows \<and>
         sorted_wrt (<) (map fst rows) \<and>
         set (map fst rows) = date ` set qs \<and>
         (\<forall>(d, c) \<in> set rows.
            c = sql_sum (map m (filter (\<lambda>s. date s = d) qs)) \<and>
            ((\<forall>s \<in> set qs. date s = d \<longrightarrow> m s \<noteq> None) \<longrightarrow>
               c = Some (\<Sum>s\<leftarrow>filter (\<lambda>s. date s = d) qs. the (m s))))"
    by blast
next
  show "resolve_stats_users_total stats_example_db None None =
     Inr [(738886, Some 10), (738887, Some 10), (738888, Some 10)]"
    by code_simp
qed

theorem date_sums_witness:
  "get_stat_date_counts_qs example_db (Some ''mastodon'') (Some ''platform'') =
     Inr [mk_stat 3 738888 (Some 2) None None (Some 100) (Some 50),
          mk_stat 4 738887 (Some 2) None None (Some 90) (Some 40)] \<and>
   resolve_stats_users_monthly example_db (Some ''mastodon'') (Some ''platform'') =
     Inr [(738887, Some 40), (738888, Some 50)]"
proof -
  have h: "(resolve_stats_users_monthly, users_monthly) \<in> set stat_resolvers"
    by (simp add: stat_resolvers_def)
  have q: "get_stat_date_counts_qs example_db (Some ''mastodon'') (Some ''platform'') =
     Inr [mk_stat 3 738888 (Some 2) None None (Some 100) (Some 50),
          mk_stat 4 738887 (Some 2) None None (Some 90) (Some 40)]"
    by code_simp
  have e: "resolve_stats_users_monthly example_db (Some ''mastodon'') (Some ''platform'') =
     Inr [(738887, Some 40), (738888, Some 50)]"
    by code_simp
  from date_sums [THEN conjunct1, THEN mp, OF conjI [OF h q]] show ?thesis
    by (simp only: q e simp_thms)
qed

end
